theory Spec2Isabelle
  imports Main
begin

section \<open>Go values\<close>

text \<open>
  A Go \<open>string\<close> is a sequence of bytes, and so is an Isabelle \<open>string\<close> (a list of
  8-bit characters); \<open>[]byte(s)\<close> is the identity on it. A \<open>[]byte\<close> result is either
  the \<open>nil\<close> slice or a slice with contents, and the two are kept apart because
  \<open>CACerts\<close> and \<open>get\<close> return \<open>nil\<close> on their failure paths. A Go \<open>error\<close> is modelled
  by its message; \<open>nil\<close> is \<open>None\<close> of \<open>error option\<close>.
\<close>

datatype error = Error string

datatype bytes = NilBytes | Bytes string

fun len :: "bytes \<Rightarrow> nat" where
  "len NilBytes = 0"
| "len (Bytes bs) = length bs"

fun contents :: "bytes \<Rightarrow> string" where
  "contents NilBytes = []"
| "contents (Bytes bs) = bs"

fun errorString :: "error \<Rightarrow> string" where
  "errorString (Error m) = m"

section \<open>Encodings: \<open>%d\<close>, \<open>encoding/hex\<close>, \<open>encoding/base64\<close>\<close>

fun decimal :: "nat \<Rightarrow> string" where
  "decimal n =
     (if n < 10 then [''0123456789'' ! n]
      else decimal (n div 10) @ [''0123456789'' ! (n mod 10)])"

declare decimal.simps [simp del]

text \<open>The verb \<open>%d\<close> of \<open>fmt\<close> on an \<open>int\<close>.\<close>

definition itoa :: "int \<Rightarrow> string" where
  "itoa i = (if i < 0 then CHR ''-'' # decimal (nat (- i)) else decimal (nat i))"

definition hextable :: string where
  "hextable = ''0123456789abcdef''"

text \<open>\<open>hex.EncodeToString\<close>: two lowercase digits per byte, high nibble first.\<close>

fun hex_EncodeToString :: "string \<Rightarrow> string" where
  "hex_EncodeToString [] = []"
| "hex_EncodeToString (c # cs) =
     hextable ! (of_char c div 16) # hextable ! (of_char c mod 16) # hex_EncodeToString cs"

definition encodeStd :: string where
  "encodeStd = ''ABCDEFGHIJKLMNOPQRSTUVWXYZabcdefghijklmnopqrstuvwxyz0123456789+/''"

text \<open>
  \<open>base64.StdEncoding.EncodeToString\<close>: three bytes give four digits of the standard
  alphabet; a last group of one or two bytes is padded with \<open>=\<close>.
\<close>

fun base64_nat :: "nat list \<Rightarrow> string" where
  "base64_nat [] = []"
| "base64_nat [a] =
     [encodeStd ! (a div 4), encodeStd ! (a mod 4 * 16), CHR ''='', CHR ''='']"
| "base64_nat [a, b] =
     [encodeStd ! (a div 4), encodeStd ! (a mod 4 * 16 + b div 16),
      encodeStd ! (b mod 16 * 4), CHR ''='']"
| "base64_nat (a # b # c # r) =
     [encodeStd ! (a div 4), encodeStd ! (a mod 4 * 16 + b div 16),
      encodeStd ! (b mod 16 * 4 + c div 64), encodeStd ! (c mod 64)] @ base64_nat r"

definition base64_EncodeToString :: "string \<Rightarrow> string" where
  "base64_EncodeToString src = base64_nat (map of_char src)"

section \<open>URLs, requests, clients and responses\<close>

text \<open>The fields of \<open>url.URL\<close> that the package reads or writes.\<close>

record url =
  Scheme :: string
  Host :: string
  Path :: string
  RawQuery :: string

text \<open>
  A header is a list of key and value; the keys the package uses are already in
  canonical form. \<open>Set\<close> replaces the value of a key, \<open>Get\<close> gives the empty string for
  a key that is absent.
\<close>

type_synonym header = "(string \<times> string) list"

fun Header_Set :: "header \<Rightarrow> string \<Rightarrow> string \<Rightarrow> header" where
  "Header_Set [] k v = [(k, v)]"
| "Header_Set (p # ps) k v =
     (if fst p = k then (k, v) # ps else p # Header_Set ps k v)"

definition Header_Get :: "header \<Rightarrow> string \<Rightarrow> string" where
  "Header_Get h k = (case map_of h k of None \<Rightarrow> [] | Some v \<Rightarrow> v)"

record request =
  Method :: string
  URL :: string
  Header :: header

datatype proxy = ProxyFromEnvironment

text \<open>\<open>RootCAs = None\<close> is Go's \<open>nil\<close>: the host's root CA set is used.\<close>

record tls_Config =
  InsecureSkipVerify :: bool
  RootCAs :: "string list option"

record transport =
  Proxy :: proxy
  TLSClientConfig :: tls_Config

text \<open>
  \<open>Timeout\<close> is a \<open>time.Duration\<close>, a count of nanoseconds; zero means that the client
  sets no timeout. \<open>Transport = None\<close> is \<open>nil\<close>: the default transport.
\<close>

record client =
  Timeout :: int
  Transport :: "transport option"

definition Second :: int where
  "Second = 1000000000"

text \<open>\<open>http.DefaultClient\<close> is the zero value \<open>&http.Client{}\<close> of the standard library.\<close>

definition DefaultClient :: client where
  "DefaultClient = \<lparr>Timeout = 0, Transport = None\<rparr>"

definition insecureClient :: client where
  "insecureClient =
     \<lparr>Timeout = Second * 5,
      Transport = Some \<lparr>Proxy = ProxyFromEnvironment,
        TLSClientConfig = \<lparr>InsecureSkipVerify = True, RootCAs = None\<rparr>\<rparr>\<rparr>"

text \<open>\<open>x509.NewCertPool\<close> and \<open>AppendCertsFromPEM\<close>: a pool is the PEM data put into it.\<close>

definition NewCertPool :: "string list" where
  "NewCertPool = []"

definition AppendCertsFromPEM :: "string list \<Rightarrow> bytes \<Rightarrow> string list" where
  "AppendCertsFromPEM pool pem = pool @ [contents pem]"

text \<open>
  A response: \<open>RespBody\<close> is what \<open>ioutil.ReadAll\<close> reads from the body, and \<open>ReadErr\<close>
  the error it ends with (\<open>None\<close> at a clean end of the body).
\<close>

record response =
  StatusCode :: int
  Status :: string
  RespHeader :: header
  RespBody :: string
  ReadErr :: "error option"

definition ReadAll :: "response \<Rightarrow> bytes \<times> error option" where
  "ReadAll resp = (Bytes (RespBody resp), ReadErr resp)"

definition StatusOK :: int where
  "StatusOK = 200"

text \<open>The part of \<open>applyinator.File\<close> that \<open>ToFile\<close> fills in.\<close>

record File =
  Content :: string
  FilePath :: string
  Permissions :: string

section \<open>The world outside the package\<close>

text \<open>
  Everything the package calls and does not define is a field of the world: the random
  nonce, the URL parser and printer of \<open>net/url\<close>, the network (what the \<open>n\<close>-th action
  of the call, a request sent through a given client, comes back with), the token
  resolver and the retrieval of package \<open>tpm\<close>, and the digests \<open>sha256.Sum256\<close> and
  HMAC-SHA512 (key, then message).
\<close>

record world =
  Generate :: "error + string"
  Parse :: "string \<Rightarrow> error + url"
  URL_String :: "url \<Rightarrow> string"
  RoundTrip :: "nat \<Rightarrow> client \<Rightarrow> request \<Rightarrow> error + response"
  ResolveToken :: "string \<Rightarrow> bool \<times> string \<times> error option"
  tpm_Get :: "bytes \<Rightarrow> string \<Rightarrow> bytes \<times> error option"
  Sum256 :: "string \<Rightarrow> string"
  HMAC_SHA512 :: "string \<Rightarrow> string \<Rightarrow> string"

text \<open>
  The log of a call: each request sent, with the client that sent it, each release of a
  client's idle connections, and each retrieval handed to package \<open>tpm\<close>.
\<close>

datatype event =
    Do client request
  | CloseIdleConnections client
  | TPM_Get bytes string

type_synonym result = "bytes \<times> string \<times> error option"

text \<open>
  \<open>http.NewRequest\<close> with a valid method and no body fails exactly when the URL does
  not parse.
\<close>

definition NewRequest :: "world \<Rightarrow> string \<Rightarrow> string \<Rightarrow> error + request" where
  "NewRequest w method target =
     (case Parse w target of
        Inl e \<Rightarrow> Inl e
      | Inr u \<Rightarrow> Inr \<lparr>Method = method, URL = target, Header = []\<rparr>)"

definition client_Do ::
  "world \<Rightarrow> client \<Rightarrow> request \<Rightarrow> event list \<Rightarrow> (error + response) \<times> event list" where
  "client_Do w c req log = (RoundTrip w (length log) c req, log @ [Do c req])"

text \<open>\<open>http.Get\<close>: a GET request through the default client.\<close>

definition http_Get ::
  "world \<Rightarrow> string \<Rightarrow> event list \<Rightarrow> (error + response) \<times> event list" where
  "http_Get w target log =
     (case NewRequest w ''GET'' target of
        Inl e \<Rightarrow> (Inl e, log)
      | Inr req \<Rightarrow> client_Do w DefaultClient req log)"

section \<open>The hashing helpers\<close>

definition hashHex :: "world \<Rightarrow> bytes \<Rightarrow> string" where
  "hashHex w token = hex_EncodeToString (Sum256 w (contents token))"

definition hashBase64 :: "world \<Rightarrow> bytes \<Rightarrow> string" where
  "hashBase64 w token = base64_EncodeToString (Sum256 w (contents token))"

text \<open>
  A \<open>hash.Hash\<close> made by \<open>hmac.New\<close>: the key and the bytes written so far; \<open>Sum(nil)\<close>
  is the MAC of all of them.
\<close>

record digest =
  key :: string
  written :: string

definition hmac_New :: "string \<Rightarrow> digest" where
  "hmac_New k = \<lparr>key = k, written = []\<rparr>"

definition Write :: "digest \<Rightarrow> string \<Rightarrow> digest" where
  "Write d p = d\<lparr>written := written d @ p\<rparr>"

definition Sum :: "world \<Rightarrow> digest \<Rightarrow> string" where
  "Sum w d = HMAC_SHA512 w (key d) (written d)"

definition hash :: "world \<Rightarrow> string \<Rightarrow> string \<Rightarrow> bytes \<Rightarrow> string" where
  "hash w token nonce bs =
     (let digest = hmac_New token;
          digest = Write digest nonce;
          digest = Write digest [CHR 0x00];
          digest = Write digest (contents bs);
          digest = Write digest [CHR 0x00]
      in base64_EncodeToString (Sum w digest))"

section \<open>\<open>CACerts\<close>, \<open>get\<close> and \<open>ToFile\<close>\<close>

definition requestURL :: "url \<Rightarrow> bool \<Rightarrow> string" where
  "requestURL u clusterToken =
     (if \<not> clusterToken then ''https://'' @ Host u @ ''/v1-rancheros/cacerts''
      else ''https://'' @ Host u @ ''/cacerts'')"

text \<open>
  \<open>CACerts\<close> is written in two parts. The first part is lines 109 to 140: the nonce, the
  probe and the bootstrap request. It ends with \<open>Inl r\<close> when \<open>CACerts\<close> returns \<open>r\<close>
  there, and with \<open>Inr (nonce, resp)\<close> when the bootstrap request has come back with the
  response \<open>resp\<close>. The second part is lines 143 to 162: what \<open>CACerts\<close> returns for that
  response.
\<close>

definition CACerts_exchange ::
  "world \<Rightarrow> string \<Rightarrow> string \<Rightarrow> bool \<Rightarrow> event list
     \<Rightarrow> (result + string \<times> response) \<times> event list" where
  "CACerts_exchange w server token clusterToken log =
     (case Generate w of
        Inl e \<Rightarrow> (Inl (NilBytes, [], Some e), log)
      | Inr nonce \<Rightarrow>
     (case Parse w server of
        Inl e \<Rightarrow> (Inl (NilBytes, [], Some e), log)
      | Inr u \<Rightarrow>
     (case http_Get w (requestURL u clusterToken) log of
        (Inr resp, log1) \<Rightarrow> (Inl (NilBytes, [], None), log1)
      | (Inl _, log1) \<Rightarrow>
     (case NewRequest w ''GET'' (requestURL u clusterToken) of
        Inl e \<Rightarrow> (Inl (NilBytes, [], Some e), log1)
      | Inr req0 \<Rightarrow>
     (let req1 = req0\<lparr>Header := Header_Set (Header req0) ''X-Cattle-Nonce'' nonce\<rparr>;
          req = req1\<lparr>Header := Header_Set (Header req1) ''Authorization''
                  (''Bearer '' @ hashBase64 w (Bytes token))\<rparr>
      in case client_Do w insecureClient req log1 of
        (Inl e, log2) \<Rightarrow>
          (Inl (NilBytes, [],
             Some (Error (''insecure cacerts download from '' @ requestURL u clusterToken
                           @ '': '' @ errorString e))), log2)
      | (Inr resp, log2) \<Rightarrow> (Inr (nonce, resp), log2))))))"

definition CACerts_verify :: "world \<Rightarrow> string \<Rightarrow> string \<Rightarrow> response \<Rightarrow> result" where
  "CACerts_verify w token nonce resp =
     (case ReadAll resp of
        (data, Some e) \<Rightarrow> (NilBytes, [], Some e)
      | (data, None) \<Rightarrow>
          if StatusCode resp \<noteq> StatusOK then
            (NilBytes, [],
             Some (Error (''response '' @ itoa (StatusCode resp) @ '': '' @ Status resp
                           @ '' getting cacerts: '' @ contents data)))
          else if Header_Get (RespHeader resp) ''X-Cattle-Hash'' \<noteq> hash w token nonce data then
            (NilBytes, [],
             Some (Error (''response hash ('' @ Header_Get (RespHeader resp) ''X-Cattle-Hash''
                           @ '') does not match ('' @ hash w token nonce data @ '')'')))
          else if len data = 0 then (NilBytes, [], None)
          else (data, hashHex w data, None))"

definition CACerts ::
  "world \<Rightarrow> string \<Rightarrow> string \<Rightarrow> bool \<Rightarrow> event list \<Rightarrow> result \<times> event list" where
  "CACerts w server token clusterToken log =
     (case CACerts_exchange w server token clusterToken log of
        (Inl r, log1) \<Rightarrow> (r, log1)
      | (Inr (nonce, resp), log2) \<Rightarrow> (CACerts_verify w token nonce resp, log2))"

text \<open>
  The client \<open>get\<close> builds when the bundle is not empty: a new pool holding the bundle is
  the only trust root.
\<close>

definition pinnedClient :: "bytes \<Rightarrow> client" where
  "pinnedClient cacert =
     (let pool = AppendCertsFromPEM NewCertPool cacert
      in \<lparr>Timeout = 5 * Second,
          Transport = Some \<lparr>Proxy = ProxyFromEnvironment,
            TLSClientConfig = \<lparr>InsecureSkipVerify = False, RootCAs = Some pool\<rparr>\<rparr>\<rparr>)"

text \<open>Lines 101 to 105 of \<open>get\<close>: the body is read, then the status is looked at.\<close>

definition readResponse :: "response \<Rightarrow> string \<Rightarrow> result" where
  "readResponse resp caChecksum =
     (case ReadAll resp of
        (data, err) \<Rightarrow>
          if StatusCode resp \<noteq> StatusOK then
            (NilBytes, [], Some (Error (contents data @ '': '' @ Status resp)))
          else (data, caChecksum, err))"

definition get ::
  "world \<Rightarrow> string \<Rightarrow> string \<Rightarrow> string \<Rightarrow> bool \<Rightarrow> event list \<Rightarrow> result \<times> event list" where
  "get w server token0 path clusterToken log =
     (case Parse w server of
        Inl e \<Rightarrow> ((NilBytes, [], Some e), log)
      | Inr u0 \<Rightarrow>
     (let u = u0\<lparr>Path := path\<rparr> in
      case (if \<not> clusterToken then ResolveToken w token0 else (False, token0, None)) of
        (isTPM, token, Some e) \<Rightarrow> ((NilBytes, [], Some e), log)
      | (isTPM, token, None) \<Rightarrow>
     (case CACerts w server token clusterToken log of
        ((cacert, caChecksum, Some e), log1) \<Rightarrow> ((NilBytes, [], Some e), log1)
      | ((cacert, caChecksum, None), log1) \<Rightarrow>
          if isTPM then
            (case tpm_Get w cacert (URL_String w u) of
               (data, err) \<Rightarrow>
                 ((data, caChecksum, err), log1 @ [TPM_Get cacert (URL_String w u)]))
          else
     (case NewRequest w ''GET'' (URL_String w u) of
        Inl e \<Rightarrow> ((NilBytes, [], Some e), log1)
      | Inr req0 \<Rightarrow>
     (let req = (if \<not> clusterToken
                 then req0\<lparr>Header := Header_Set (Header req0) ''Authorization''
                        (''Bearer '' @ base64_EncodeToString token)\<rparr>
                 else req0)
      in if len cacert = 0 then
           (case client_Do w DefaultClient req log1 of
              (Inl e, log2) \<Rightarrow> ((NilBytes, [], Some e), log2)
            | (Inr resp, log2) \<Rightarrow> (readResponse resp caChecksum, log2))
         else
           (let client = pinnedClient cacert in
            case client_Do w client req log1 of
              (Inl e, log2) \<Rightarrow>
                ((NilBytes, [], Some e), log2 @ [CloseIdleConnections client])
            | (Inr resp, log2) \<Rightarrow>
                (readResponse resp caChecksum, log2 @ [CloseIdleConnections client])))))))"

definition Get ::
  "world \<Rightarrow> string \<Rightarrow> string \<Rightarrow> string \<Rightarrow> event list \<Rightarrow> result \<times> event list" where
  "Get w server token path log = get w server token path True log"

definition MachineGet ::
  "world \<Rightarrow> string \<Rightarrow> string \<Rightarrow> string \<Rightarrow> event list \<Rightarrow> result \<times> event list" where
  "MachineGet w server token path log = get w server token path False log"

definition ToFile ::
  "world \<Rightarrow> string \<Rightarrow> string \<Rightarrow> event list \<Rightarrow> (error + File) \<times> event list" where
  "ToFile w server token log =
     (case CACerts w server token True log of
        ((cacert, _, Some e), log1) \<Rightarrow> (Inl e, log1)
      | ((cacert, _, None), log1) \<Rightarrow>
          (Inr \<lparr>Content = base64_EncodeToString (contents cacert),
                FilePath = ''/etc/pki/trust/anchors/additional-ca.pem'',
                Permissions = ''0644''\<rparr>, log1))"

section \<open>Example worlds\<close>

text \<open>
  Stand-ins for the two digests, short enough to read in a result: they are used only
  where a theorem is applied to a concrete world.
\<close>

definition exampleSum256 :: "string \<Rightarrow> string" where
  "exampleSum256 s = ''sha:'' @ s"

definition exampleHMAC :: "string \<Rightarrow> string \<Rightarrow> string" where
  "exampleHMAC k m = k @ m"

definition exampleServer :: string where
  "exampleServer = ''https://rancher.test''"

text \<open>
  What a server that holds the token \<open>tok\<close> answers on the bootstrap endpoint to a
  request with the given nonce: the status, the body and the hash of nonce and body.
\<close>

definition cacertsReply :: "int \<Rightarrow> string \<Rightarrow> string \<Rightarrow> error option \<Rightarrow> string \<Rightarrow> response" where
  "cacertsReply code status body rerr nonce =
     \<lparr>StatusCode = code, Status = status,
      RespHeader = [(''X-Cattle-Hash'',
        base64_EncodeToString (exampleHMAC ''tok'' (nonce @ [CHR 0x00] @ body @ [CHR 0x00])))],
      RespBody = body, ReadErr = rerr\<rparr>"

definition unknownAuthority :: error where
  "unknownAuthority = Error ''x509: certificate signed by unknown authority''"

text \<open>
  A server whose certificate is signed by a private CA with the bundle \<open>CA\<close>: a client
  that verifies against the host's roots fails, a client that skips verification gets
  the bootstrap answer, and a client that trusts the bundle gets the resource. The token
  \<open>tpm://seal\<close> is hardware-backed and resolves to \<open>tok\<close>; the hardware retrieval fails.
\<close>

definition privateWorld :: "(string \<Rightarrow> response) \<Rightarrow> world" where
  "privateWorld bootstrap =
     \<lparr>Generate = Inr ''n0'',
      Parse = (\<lambda>s. if s = [] then Inl (Error ''empty url'')
                   else Inr \<lparr>Scheme = ''https'', Host = ''rancher.test'', Path = [],
                             RawQuery = []\<rparr>),
      URL_String = (\<lambda>u. Scheme u @ ''://'' @ Host u @ Path u),
      RoundTrip = (\<lambda>n c req.
        case Transport c of
          None \<Rightarrow> Inl unknownAuthority
        | Some t \<Rightarrow>
            if InsecureSkipVerify (TLSClientConfig t) then
              Inr (bootstrap (Header_Get (Header req) ''X-Cattle-Nonce''))
            else if RootCAs (TLSClientConfig t) = Some [''CA''] then
              Inr \<lparr>StatusCode = 200, Status = ''200 OK'', RespHeader = [],
                   RespBody = ''plan'', ReadErr = None\<rparr>
            else Inl unknownAuthority),
      ResolveToken = (\<lambda>t. if t = ''tpm://seal'' then (True, ''tok'', None)
                          else (False, t, None)),
      tpm_Get = (\<lambda>ca u. (NilBytes, Some (Error ''tpm: attestation failed''))),
      Sum256 = exampleSum256,
      HMAC_SHA512 = exampleHMAC\<rparr>"

definition privateCA :: world where
  "privateCA = privateWorld (cacertsReply 200 ''200 OK'' ''CA'' None)"

text \<open>A server whose certificate the host's roots verify: every request is answered.\<close>

definition publicCA :: world where
  "publicCA =
     (privateWorld (cacertsReply 200 ''200 OK'' ''CA'' None))
       \<lparr>RoundTrip := (\<lambda>n c req.
          Inr \<lparr>StatusCode = 200, Status = ''200 OK'', RespHeader = [],
               RespBody = ''ok'', ReadErr = None\<rparr>)\<rparr>"

definition longBody :: string where
  "longBody = replicate 4096 (CHR ''x'')"

section \<open>Lemmas about the model\<close>

lemma hash_eq:
  "hash w token nonce bs =
     base64_EncodeToString (HMAC_SHA512 w token (nonce @ [CHR 0x00] @ contents bs @ [CHR 0x00]))"
  by (simp add: hash_def hmac_New_def Write_def Sum_def)

lemma CACerts_reaches_verify:
  "CACerts_exchange w server token clusterToken log = (Inr (nonce, resp), log') \<Longrightarrow>
   CACerts w server token clusterToken log = (CACerts_verify w token nonce resp, log')"
  by (simp add: CACerts_def)

lemma hex_digit_lowercase: "n < 16 \<Longrightarrow> hextable ! n \<in> set hextable"
  by (rule nth_mem) (simp add: hextable_def)

lemma hex_lowercase: "set (hex_EncodeToString s) \<subseteq> set hextable"
proof (induction s)
  case Nil
  show ?case by simp
next
  case (Cons c cs)
  have hi: "(of_char c :: nat) div 16 < 16"
    using nat_of_char_less_256 [of c] by (simp add: less_mult_imp_div_less)
  have lo: "(of_char c :: nat) mod 16 < 16" by simp
  from hex_digit_lowercase [OF hi] hex_digit_lowercase [OF lo] Cons.IH
  show ?case by simp
qed

lemma base64_empty: "base64_EncodeToString [] = []"
  by (simp add: base64_EncodeToString_def)

text \<open>The hardware path of \<open>get\<close>, lines 62 to 65.\<close>

lemma get_hardware:
  assumes "\<not> clusterToken"
    and "Parse w server = Inr u"
    and "ResolveToken w token0 = (True, token, None)"
    and "CACerts w server token False log = ((cacert, caChecksum, None), log1)"
  shows "get w server token0 path clusterToken log =
           ((fst (tpm_Get w cacert (URL_String w (u\<lparr>Path := path\<rparr>))), caChecksum,
             snd (tpm_Get w cacert (URL_String w (u\<lparr>Path := path\<rparr>)))),
            log1 @ [TPM_Get cacert (URL_String w (u\<lparr>Path := path\<rparr>))])"
  using assms by (simp add: get_def Let_def split: prod.splits)

text \<open>The other path of \<open>get\<close>, lines 67 to 105, once the bundle is there.\<close>

lemma get_manual:
  assumes "Parse w server = Inr u"
    and "(if \<not> clusterToken then ResolveToken w token0 else (False, token0, None)) =
           (False, token, None)"
    and "CACerts w server token clusterToken log = ((cacert, caChecksum, None), log1)"
    and "Parse w (URL_String w (u\<lparr>Path := path\<rparr>)) = Inr u'"
    and "req = \<lparr>Method = ''GET'', URL = URL_String w (u\<lparr>Path := path\<rparr>),
                Header = (if clusterToken then []
                          else [(''Authorization'', ''Bearer '' @ base64_EncodeToString token)])\<rparr>"
    and "c = (if len cacert = 0 then DefaultClient else pinnedClient cacert)"
  shows "get w server token0 path clusterToken log =
           (case RoundTrip w (length log1) c req of
              Inl e \<Rightarrow> (NilBytes, [], Some e)
            | Inr resp \<Rightarrow> readResponse resp caChecksum,
            log1 @ Do c req # (if len cacert = 0 then [] else [CloseIdleConnections c]))"
  using assms(2)
  by (simp add: get_def assms(1,3,4,5,6) NewRequest_def client_Do_def Let_def
           split: sum.splits)






text \<open>Runs of the example worlds.\<close>

lemma privateWorld_digests:
  "Sum256 (privateWorld reply) = exampleSum256"
  "HMAC_SHA512 (privateWorld reply) = exampleHMAC"
  by (simp_all add: privateWorld_def)

lemma privateWorld_exchange:
  "CACerts_exchange (privateWorld reply) exampleServer token clusterToken [] =
     (Inr (''n0'', reply ''n0''),
      [Do DefaultClient
         \<lparr>Method = ''GET'',
          URL = ''https://rancher.test'' @ (if clusterToken then ''/cacerts''
                                            else ''/v1-rancheros/cacerts''),
          Header = []\<rparr>,
       Do insecureClient
         \<lparr>Method = ''GET'',
          URL = ''https://rancher.test'' @ (if clusterToken then ''/cacerts''
                                            else ''/v1-rancheros/cacerts''),
          Header = [(''X-Cattle-Nonce'', ''n0''),
                    (''Authorization'',
                     ''Bearer '' @ base64_EncodeToString (exampleSum256 token))]\<rparr>])"
  by (simp add: CACerts_exchange_def http_Get_def NewRequest_def client_Do_def requestURL_def
        DefaultClient_def insecureClient_def Header_Get_def hashBase64_def Let_def
        privateWorld_def exampleServer_def)

lemma privateCA_CACerts:
  "CACerts privateCA exampleServer ''tok'' clusterToken [] =
     ((Bytes ''CA'', ''7368613a4341'', None),
      snd (CACerts_exchange privateCA exampleServer ''tok'' clusterToken []))"
  unfolding privateCA_def
  by (simp add: CACerts_reaches_verify [OF privateWorld_exchange] privateWorld_exchange
        privateWorld_digests CACerts_verify_def ReadAll_def StatusOK_def Header_Get_def hash_eq
        hashHex_def hextable_def cacertsReply_def exampleSum256_def)

lemma privateWorld_Parse:
  "s \<noteq> [] \<Longrightarrow> Parse (privateWorld reply) s =
     Inr \<lparr>Scheme = ''https'', Host = ''rancher.test'', Path = [], RawQuery = []\<rparr>"
  by (simp add: privateWorld_def)

lemma privateWorld_URL_String:
  "URL_String (privateWorld reply)
     (\<lparr>Scheme = ''https'', Host = ''rancher.test'', Path = [], RawQuery = []\<rparr>\<lparr>Path := p\<rparr>) =
   ''https://rancher.test'' @ p"
  by (simp add: privateWorld_def)

lemma privateWorld_pinned:
  "RoundTrip (privateWorld reply) n (pinnedClient (Bytes ''CA'')) req =
     Inr \<lparr>StatusCode = 200, Status = ''200 OK'', RespHeader = [], RespBody = ''plan'',
          ReadErr = None\<rparr>"
  by (simp add: privateWorld_def pinnedClient_def NewCertPool_def AppendCertsFromPEM_def)

lemma publicCA_CACerts:
  "CACerts publicCA exampleServer token True [] =
     ((NilBytes, [], None),
      [Do DefaultClient
         \<lparr>Method = ''GET'', URL = ''https://rancher.test/cacerts'', Header = []\<rparr>])"
  by (simp add: CACerts_def CACerts_exchange_def http_Get_def NewRequest_def client_Do_def
        requestURL_def publicCA_def privateWorld_def exampleServer_def)

section \<open>The claims\<close>

text \<open>
  C1. Once the bootstrap request has come back with a response of status 200 whose body
  was read, \<open>CACerts\<close> returns without error if and only if the header \<open>X-Cattle-Hash\<close>
  of the response is the base64 form of HMAC-SHA512 with the token as key over nonce, a
  zero byte, the body and a zero byte; when the header is anything else, \<open>CACerts\<close>
  returns an error with the nil bundle and the empty checksum.
\<close>

theorem CACerts_verifies_hash:
  assumes "CACerts_exchange w server token clusterToken log = (Inr (nonce, resp), log')"
    and "ReadErr resp = None"
    and "StatusCode resp = StatusOK"
  shows "((\<exists>b s. CACerts w server token clusterToken log = ((b, s, None), log')) \<longleftrightarrow>
            Header_Get (RespHeader resp) ''X-Cattle-Hash'' =
              base64_EncodeToString
                (HMAC_SHA512 w token (nonce @ [CHR 0x00] @ RespBody resp @ [CHR 0x00])))
         \<and> (Header_Get (RespHeader resp) ''X-Cattle-Hash'' \<noteq>
              base64_EncodeToString
                (HMAC_SHA512 w token (nonce @ [CHR 0x00] @ RespBody resp @ [CHR 0x00])) \<longrightarrow>
            (\<exists>e. CACerts w server token clusterToken log = ((NilBytes, [], Some e), log')))"
  using assms
  by (simp add: CACerts_reaches_verify CACerts_verify_def ReadAll_def hash_eq)

text \<open>
  In the world of the private CA the server computes the hash with the token \<open>tok\<close>: the
  caller with the token \<open>tok\<close> is answered with a header that matches, and the caller
  with the token \<open>bad\<close> gets an error, the nil bundle and the empty checksum.
\<close>

theorem CACerts_verifies_hash_witness:
  "CACerts_exchange privateCA exampleServer ''bad'' True [] =
     (Inr (''n0'', cacertsReply 200 ''200 OK'' ''CA'' None ''n0''),
      snd (CACerts_exchange privateCA exampleServer ''bad'' True []))
   \<and> ReadErr (cacertsReply 200 ''200 OK'' ''CA'' None ''n0'') = None
   \<and> StatusCode (cacertsReply 200 ''200 OK'' ''CA'' None ''n0'') = StatusOK
   \<and> Header_Get (RespHeader (cacertsReply 200 ''200 OK'' ''CA'' None ''n0'')) ''X-Cattle-Hash''
       = ''dG9rbjAAQ0EA''
   \<and> base64_EncodeToString (HMAC_SHA512 privateCA ''bad'' (''n0'' @ [CHR 0x00] @ ''CA'' @ [CHR 0x00]))
       = ''YmFkbjAAQ0EA''
   \<and> (\<exists>e. CACerts privateCA exampleServer ''bad'' True [] =
             ((NilBytes, [], Some e), snd (CACerts_exchange privateCA exampleServer ''bad'' True [])))"
proof -
  have h1: "CACerts_exchange privateCA exampleServer ''bad'' True [] =
     (Inr (''n0'', cacertsReply 200 ''200 OK'' ''CA'' None ''n0''),
      snd (CACerts_exchange privateCA exampleServer ''bad'' True []))"
    by (simp add: privateCA_def privateWorld_exchange)
  have h2: "ReadErr (cacertsReply 200 ''200 OK'' ''CA'' None ''n0'') = None"
    by (simp add: cacertsReply_def)
  have h3: "StatusCode (cacertsReply 200 ''200 OK'' ''CA'' None ''n0'') = StatusOK"
    by (simp add: cacertsReply_def StatusOK_def)
  have h4: "Header_Get (RespHeader (cacertsReply 200 ''200 OK'' ''CA'' None ''n0''))
              ''X-Cattle-Hash'' = ''dG9rbjAAQ0EA''"
    by (simp add: cacertsReply_def Header_Get_def exampleHMAC_def base64_EncodeToString_def
          encodeStd_def)
  have h5: "base64_EncodeToString
              (HMAC_SHA512 privateCA ''bad'' (''n0'' @ [CHR 0x00] @ ''CA'' @ [CHR 0x00]))
            = ''YmFkbjAAQ0EA''"
    by (simp add: privateCA_def privateWorld_digests exampleHMAC_def base64_EncodeToString_def
          encodeStd_def)
  have h6: "RespBody (cacertsReply 200 ''200 OK'' ''CA'' None ''n0'') = ''CA''"
    by (simp add: cacertsReply_def)
  from CACerts_verifies_hash [OF h1 h2 h3] h4 h5 h6
  have "\<exists>e. CACerts privateCA exampleServer ''bad'' True [] =
             ((NilBytes, [], Some e), snd (CACerts_exchange privateCA exampleServer ''bad'' True []))"
    by simp
  with h1 h2 h3 h4 h5 show ?thesis by blast
qed

text \<open>
  C2. When the nonce was generated, the server URL parsed and the plain GET of the
  well-known endpoint came back without error, with whatever response, \<open>CACerts\<close>
  returns the nil bundle, the empty checksum and no error, and the probe is the only
  request it has sent: nothing is asked of the bootstrap endpoint.
\<close>

theorem CACerts_probe_success:
  assumes "Generate w = Inr nonce"
    and "Parse w server = Inr u"
    and "http_Get w (requestURL u clusterToken) log = (Inr resp, log')"
  shows "CACerts w server token clusterToken log = ((NilBytes, [], None), log')
         \<and> log' = log @ [Do DefaultClient
                            \<lparr>Method = ''GET'', URL = requestURL u clusterToken, Header = []\<rparr>]"
  using assms
  by (auto simp: CACerts_def CACerts_exchange_def http_Get_def NewRequest_def client_Do_def
           split: sum.splits)

theorem CACerts_probe_success_witness:
  "Generate publicCA = Inr ''n0''
   \<and> Parse publicCA exampleServer =
       Inr \<lparr>Scheme = ''https'', Host = ''rancher.test'', Path = [], RawQuery = []\<rparr>
   \<and> CACerts publicCA exampleServer ''tok'' True [] =
       ((NilBytes, [], None),
        [Do DefaultClient
           \<lparr>Method = ''GET'', URL = ''https://rancher.test/cacerts'', Header = []\<rparr>])"
proof -
  let ?u = "\<lparr>Scheme = ''https'', Host = ''rancher.test'', Path = [], RawQuery = []\<rparr>"
  let ?ok = "\<lparr>StatusCode = 200, Status = ''200 OK'', RespHeader = [], RespBody = ''ok'',
              ReadErr = None\<rparr>"
  have h1: "Generate publicCA = Inr ''n0''"
    by (simp add: publicCA_def privateWorld_def)
  have h2: "Parse publicCA exampleServer = Inr ?u"
    by (simp add: publicCA_def privateWorld_def exampleServer_def)
  have h3: "http_Get publicCA (requestURL ?u True) [] =
              (Inr ?ok, [Do DefaultClient
                 \<lparr>Method = ''GET'', URL = ''https://rancher.test/cacerts'', Header = []\<rparr>])"
    by (simp add: http_Get_def NewRequest_def client_Do_def requestURL_def publicCA_def
          privateWorld_def)
  from CACerts_probe_success [OF h1 h2 h3, of "''tok''"] h1 h2 show ?thesis by simp
qed

text \<open>
  C3. When the response passes the check of C1, \<open>CACerts\<close> returns the nil bundle, the
  empty checksum and no error for an empty body, which is what it returns after a
  successful probe, and otherwise the body with the hexadecimal form of its SHA-256
  digest and no error; the digits of the checksum are those of the lowercase table.
\<close>

theorem CACerts_verified_result:
  assumes "CACerts_exchange w server token clusterToken log = (Inr (nonce, resp), log')"
    and "ReadErr resp = None"
    and "StatusCode resp = StatusOK"
    and "Header_Get (RespHeader resp) ''X-Cattle-Hash'' =
           base64_EncodeToString
             (HMAC_SHA512 w token (nonce @ [CHR 0x00] @ RespBody resp @ [CHR 0x00]))"
  shows "CACerts w server token clusterToken log =
           (if RespBody resp = [] then (NilBytes, [], None)
            else (Bytes (RespBody resp), hex_EncodeToString (Sum256 w (RespBody resp)), None),
            log')
         \<and> set (hex_EncodeToString (Sum256 w (RespBody resp))) \<subseteq> set hextable"
proof
  show "CACerts w server token clusterToken log =
           (if RespBody resp = [] then (NilBytes, [], None)
            else (Bytes (RespBody resp), hex_EncodeToString (Sum256 w (RespBody resp)), None),
            log')"
    using assms
    by (simp add: CACerts_reaches_verify CACerts_verify_def ReadAll_def hash_eq hashHex_def)
  show "set (hex_EncodeToString (Sum256 w (RespBody resp))) \<subseteq> set hextable"
    by (rule hex_lowercase)
qed

theorem CACerts_verified_result_witness:
  "CACerts_exchange privateCA exampleServer ''tok'' True [] =
     (Inr (''n0'', cacertsReply 200 ''200 OK'' ''CA'' None ''n0''),
      snd (CACerts_exchange privateCA exampleServer ''tok'' True []))
   \<and> ReadErr (cacertsReply 200 ''200 OK'' ''CA'' None ''n0'') = None
   \<and> StatusCode (cacertsReply 200 ''200 OK'' ''CA'' None ''n0'') = StatusOK
   \<and> Header_Get (RespHeader (cacertsReply 200 ''200 OK'' ''CA'' None ''n0'')) ''X-Cattle-Hash''
       = base64_EncodeToString
           (HMAC_SHA512 privateCA ''tok''
              (''n0'' @ [CHR 0x00] @ RespBody (cacertsReply 200 ''200 OK'' ''CA'' None ''n0'')
                 @ [CHR 0x00]))
   \<and> CACerts privateCA exampleServer ''tok'' True [] =
       ((Bytes ''CA'', ''7368613a4341'', None),
        snd (CACerts_exchange privateCA exampleServer ''tok'' True []))"
proof -
  have h1: "CACerts_exchange privateCA exampleServer ''tok'' True [] =
     (Inr (''n0'', cacertsReply 200 ''200 OK'' ''CA'' None ''n0''),
      snd (CACerts_exchange privateCA exampleServer ''tok'' True []))"
    by (simp add: privateCA_def privateWorld_exchange)
  have h2: "ReadErr (cacertsReply 200 ''200 OK'' ''CA'' None ''n0'') = None"
    by (simp add: cacertsReply_def)
  have h3: "StatusCode (cacertsReply 200 ''200 OK'' ''CA'' None ''n0'') = StatusOK"
    by (simp add: cacertsReply_def StatusOK_def)
  have h4: "Header_Get (RespHeader (cacertsReply 200 ''200 OK'' ''CA'' None ''n0''))
              ''X-Cattle-Hash''
       = base64_EncodeToString
           (HMAC_SHA512 privateCA ''tok''
              (''n0'' @ [CHR 0x00] @ RespBody (cacertsReply 200 ''200 OK'' ''CA'' None ''n0'')
                 @ [CHR 0x00]))"
    by (simp add: cacertsReply_def Header_Get_def privateCA_def privateWorld_digests)
  have h5: "RespBody (cacertsReply 200 ''200 OK'' ''CA'' None ''n0'') = ''CA''"
    by (simp add: cacertsReply_def)
  have h6: "hex_EncodeToString (Sum256 privateCA ''CA'') = ''7368613a4341''"
    by (simp add: privateCA_def privateWorld_digests exampleSum256_def hextable_def)
  from CACerts_verified_result [OF h1 h2 h3 h4] h5 h6
  have "CACerts privateCA exampleServer ''tok'' True [] =
       ((Bytes ''CA'', ''7368613a4341'', None),
        snd (CACerts_exchange privateCA exampleServer ''tok'' True []))"
    by simp
  with h1 h2 h3 h4 show ?thesis by blast
qed

text \<open>
  C4, as amended. When the bootstrap response has a status other than 200, \<open>CACerts\<close>
  returns an error with the nil bundle and the empty checksum. When the body was read
  without error, the message of the error is made of the status code, the status text
  and the whole body, of which nothing is cut; when reading the body failed, the error
  is the error of the read.
\<close>

theorem CACerts_bad_status:
  assumes "CACerts_exchange w server token clusterToken log = (Inr (nonce, resp), log')"
    and "StatusCode resp \<noteq> StatusOK"
  shows "(\<exists>e. CACerts w server token clusterToken log = ((NilBytes, [], Some e), log'))
         \<and> (ReadErr resp = None \<longrightarrow>
              CACerts w server token clusterToken log =
                ((NilBytes, [],
                  Some (Error (''response '' @ itoa (StatusCode resp) @ '': '' @ Status resp
                                @ '' getting cacerts: '' @ RespBody resp))), log'))
         \<and> (\<forall>e. ReadErr resp = Some e \<longrightarrow>
              CACerts w server token clusterToken log = ((NilBytes, [], Some e), log'))"
  using assms
  by (auto simp: CACerts_reaches_verify CACerts_verify_def ReadAll_def split: option.splits)

theorem CACerts_bad_status_witness:
  "CACerts_exchange (privateWorld (cacertsReply 503 ''503 Service Unavailable'' ''busy'' None))
       exampleServer ''tok'' True [] =
     (Inr (''n0'', cacertsReply 503 ''503 Service Unavailable'' ''busy'' None ''n0''),
      snd (CACerts_exchange
             (privateWorld (cacertsReply 503 ''503 Service Unavailable'' ''busy'' None))
             exampleServer ''tok'' True []))
   \<and> StatusCode (cacertsReply 503 ''503 Service Unavailable'' ''busy'' None ''n0'') \<noteq> StatusOK
   \<and> fst (CACerts (privateWorld (cacertsReply 503 ''503 Service Unavailable'' ''busy'' None))
            exampleServer ''tok'' True []) =
       (NilBytes, [],
        Some (Error ''response 503: 503 Service Unavailable getting cacerts: busy''))"
proof -
  let ?w = "privateWorld (cacertsReply 503 ''503 Service Unavailable'' ''busy'' None)"
  let ?r = "cacertsReply 503 ''503 Service Unavailable'' ''busy'' None ''n0''"
  have h1: "CACerts_exchange ?w exampleServer ''tok'' True [] =
              (Inr (''n0'', ?r), snd (CACerts_exchange ?w exampleServer ''tok'' True []))"
    by (simp add: privateWorld_exchange)
  have h2: "StatusCode ?r \<noteq> StatusOK"
    by (simp add: cacertsReply_def StatusOK_def)
  have h3: "ReadErr ?r = None" "StatusCode ?r = 503" "Status ?r = ''503 Service Unavailable''"
    "RespBody ?r = ''busy''"
    by (simp_all add: cacertsReply_def)
  have h4: "itoa 503 = ''503''"
    by (simp add: itoa_def decimal.simps)
  from CACerts_bad_status [OF h1 h2] h3 h4
  have "fst (CACerts ?w exampleServer ''tok'' True []) =
       (NilBytes, [],
        Some (Error ''response 503: 503 Service Unavailable getting cacerts: busy''))"
    by simp
  with h1 h2 show ?thesis by blast
qed

text \<open>
  C4 as it is stated fails twice. A response of status 503 whose body cannot be read
  gives the error of the read, which holds neither the status nor the body; and a
  response of status 503 with a body of 4096 bytes gives an error that holds all 4096
  of them.
\<close>

theorem CACerts_bad_status_counterexample:
  "fst (CACerts (privateWorld (cacertsReply 503 ''503 Service Unavailable'' ''busy''
                   (Some (Error ''unexpected EOF''))))
          exampleServer ''tok'' True []) =
     (NilBytes, [], Some (Error ''unexpected EOF''))
   \<and> fst (CACerts (privateWorld (cacertsReply 503 ''503 Service Unavailable'' longBody None))
          exampleServer ''tok'' True []) =
     (NilBytes, [],
      Some (Error (''response 503: 503 Service Unavailable getting cacerts: '' @ longBody)))
   \<and> length longBody = 4096"
proof (intro conjI)
  show "fst (CACerts (privateWorld (cacertsReply 503 ''503 Service Unavailable'' ''busy''
                   (Some (Error ''unexpected EOF''))))
          exampleServer ''tok'' True []) =
     (NilBytes, [], Some (Error ''unexpected EOF''))"
    by (simp add: CACerts_reaches_verify [OF privateWorld_exchange] CACerts_verify_def
          ReadAll_def cacertsReply_def)
  have "itoa 503 = ''503''"
    by (simp add: itoa_def decimal.simps)
  then show "fst (CACerts (privateWorld (cacertsReply 503 ''503 Service Unavailable'' longBody None))
          exampleServer ''tok'' True []) =
     (NilBytes, [],
      Some (Error (''response 503: 503 Service Unavailable getting cacerts: '' @ longBody)))"
    by (simp add: CACerts_reaches_verify [OF privateWorld_exchange] CACerts_verify_def
          ReadAll_def cacertsReply_def StatusOK_def)
  show "length longBody = 4096"
    by (simp add: longBody_def)
qed

text \<open>
  C5. When the probe has failed in the network, the two requests of \<open>CACerts\<close> are the
  probe through the default client and the bootstrap request through the insecure
  client. Both are GET requests for \<open>https://\<close>, the host of the server URL and
  \<open>/cacerts\<close> (cluster token) or \<open>/v1-rancheros/cacerts\<close> (otherwise). The bootstrap
  request carries \<open>X-Cattle-Nonce\<close> with the nonce and \<open>Authorization\<close> with \<open>Bearer\<close> and
  the base64 form of the SHA-256 digest of the token; the token enters the requests
  through that digest only, so two tokens with one digest give the same requests.
\<close>

theorem CACerts_requests:
  assumes "Generate w = Inr nonce"
    and "Parse w server = Inr u"
    and "Parse w (requestURL u clusterToken) = Inr u'"
    and "RoundTrip w (length log) DefaultClient
           \<lparr>Method = ''GET'', URL = requestURL u clusterToken, Header = []\<rparr> = Inl e"
  shows "snd (CACerts w server token clusterToken log) =
           log @ [Do DefaultClient
                    \<lparr>Method = ''GET'', URL = requestURL u clusterToken, Header = []\<rparr>,
                  Do insecureClient
                    \<lparr>Method = ''GET'', URL = requestURL u clusterToken,
                     Header = [(''X-Cattle-Nonce'', nonce),
                               (''Authorization'',
                                ''Bearer '' @ base64_EncodeToString (Sum256 w token))]\<rparr>]
         \<and> requestURL u clusterToken =
             ''https://'' @ Host u @ (if clusterToken then ''/cacerts'' else ''/v1-rancheros/cacerts'')
         \<and> (\<forall>token'. Sum256 w token' = Sum256 w token \<longrightarrow>
               snd (CACerts w server token' clusterToken log) =
               snd (CACerts w server token clusterToken log))"
  using assms
  by (auto simp: CACerts_def CACerts_exchange_def http_Get_def NewRequest_def client_Do_def
                 hashBase64_def requestURL_def Let_def
           split: sum.splits prod.splits)

theorem CACerts_requests_witness:
  "Generate privateCA = Inr ''n0''
   \<and> Parse privateCA exampleServer =
       Inr \<lparr>Scheme = ''https'', Host = ''rancher.test'', Path = [], RawQuery = []\<rparr>
   \<and> RoundTrip privateCA 0 DefaultClient
       \<lparr>Method = ''GET'', URL = ''https://rancher.test/v1-rancheros/cacerts'', Header = []\<rparr> =
       Inl unknownAuthority
   \<and> snd (CACerts privateCA exampleServer ''tok'' False []) =
       [Do DefaultClient
          \<lparr>Method = ''GET'', URL = ''https://rancher.test/v1-rancheros/cacerts'', Header = []\<rparr>,
        Do insecureClient
          \<lparr>Method = ''GET'', URL = ''https://rancher.test/v1-rancheros/cacerts'',
           Header = [(''X-Cattle-Nonce'', ''n0''),
                     (''Authorization'', ''Bearer c2hhOnRvaw=='')]\<rparr>]"
proof -
  let ?u = "\<lparr>Scheme = ''https'', Host = ''rancher.test'', Path = [], RawQuery = []\<rparr>"
  have h1: "Generate privateCA = Inr ''n0''"
    by (simp add: privateCA_def privateWorld_def)
  have h2: "Parse privateCA exampleServer = Inr ?u"
    by (simp add: privateCA_def privateWorld_Parse exampleServer_def)
  have u: "requestURL ?u False = ''https://rancher.test/v1-rancheros/cacerts''"
    by (simp add: requestURL_def)
  have h3: "Parse privateCA (requestURL ?u False) = Inr ?u"
    by (simp add: privateCA_def privateWorld_Parse u)
  have h4: "RoundTrip privateCA (length ([] :: event list)) DefaultClient
              \<lparr>Method = ''GET'', URL = requestURL ?u False, Header = []\<rparr> = Inl unknownAuthority"
    by (simp add: privateCA_def privateWorld_def DefaultClient_def)
  have h5: "base64_EncodeToString (Sum256 privateCA ''tok'') = ''c2hhOnRvaw==''"
    by (simp add: privateCA_def privateWorld_digests exampleSum256_def
          base64_EncodeToString_def encodeStd_def)
  from CACerts_requests [OF h1 h2 h3 h4, of "''tok''"] h1 h2 h4 h5 u
  show ?thesis by simp
qed

text \<open>
  C6. When \<open>get\<close> is called with a token that is not a cluster token, the resolver
  reports it as hardware-backed and \<open>CACerts\<close>, called with the resolved token, returns a
  bundle, then \<open>get\<close> returns the data and the error of the hardware retrieval, called
  with that bundle and the resource URL, together with the checksum of \<open>CACerts\<close>. After
  \<open>CACerts\<close> the log holds the hardware retrieval and nothing else: \<open>get\<close> builds no client
  and sends no request of its own.
\<close>

theorem get_hardware_delegation:
  assumes "\<not> clusterToken"
    and "Parse w server = Inr u"
    and "ResolveToken w token0 = (True, token, None)"
    and "CACerts w server token False log = ((cacert, caChecksum, None), log1)"
  shows "get w server token0 path clusterToken log =
           ((fst (tpm_Get w cacert (URL_String w (u\<lparr>Path := path\<rparr>))), caChecksum,
             snd (tpm_Get w cacert (URL_String w (u\<lparr>Path := path\<rparr>)))),
            log1 @ [TPM_Get cacert (URL_String w (u\<lparr>Path := path\<rparr>))])"
  using assms by (rule get_hardware)

theorem get_hardware_delegation_witness:
  "ResolveToken privateCA ''tpm://seal'' = (True, ''tok'', None)
   \<and> CACerts privateCA exampleServer ''tok'' False [] =
       ((Bytes ''CA'', ''7368613a4341'', None),
        snd (CACerts_exchange privateCA exampleServer ''tok'' False []))
   \<and> get privateCA exampleServer ''tpm://seal'' ''/v3/plan'' False [] =
       ((NilBytes, ''7368613a4341'', Some (Error ''tpm: attestation failed'')),
        snd (CACerts_exchange privateCA exampleServer ''tok'' False [])
          @ [TPM_Get (Bytes ''CA'') ''https://rancher.test/v3/plan''])"
proof -
  let ?u = "\<lparr>Scheme = ''https'', Host = ''rancher.test'', Path = [], RawQuery = []\<rparr>"
  have h1: "\<not> False" by simp
  have h2: "Parse privateCA exampleServer = Inr ?u"
    by (simp add: privateCA_def privateWorld_Parse exampleServer_def)
  have h3: "ResolveToken privateCA ''tpm://seal'' = (True, ''tok'', None)"
    by (simp add: privateCA_def privateWorld_def)
  have h4: "URL_String privateCA (?u\<lparr>Path := ''/v3/plan''\<rparr>) = ''https://rancher.test/v3/plan''"
    unfolding privateCA_def privateWorld_URL_String by simp
  have h5: "tpm_Get privateCA (Bytes ''CA'') ''https://rancher.test/v3/plan'' =
              (NilBytes, Some (Error ''tpm: attestation failed''))"
    by (simp add: privateCA_def privateWorld_def)
  from get_hardware_delegation [OF h1 h2 h3 privateCA_CACerts, of "''/v3/plan''"] h3 h4 h5
    privateCA_CACerts [of False]
  show ?thesis by simp
qed

text \<open>
  C7, as amended. When \<open>get\<close> has a bundle from \<open>CACerts\<close> and the token is not
  hardware-backed, it sends one request. With a bundle that is not empty the client is
  built for the call, with a timeout of five seconds and a pool that holds the bundle as
  its only trust root, and its idle connections are released at the end of the call
  whatever the request comes back with, an error included. With an empty bundle the
  request goes through the shared default client, which has no timeout, and no
  connection is released.
\<close>

theorem get_client:
  assumes "Parse w server = Inr u"
    and "(if \<not> clusterToken then ResolveToken w token0 else (False, token0, None)) =
           (False, token, None)"
    and "CACerts w server token clusterToken log = ((cacert, caChecksum, None), log1)"
    and "Parse w (URL_String w (u\<lparr>Path := path\<rparr>)) = Inr u'"
    and "req = \<lparr>Method = ''GET'', URL = URL_String w (u\<lparr>Path := path\<rparr>),
                Header = (if clusterToken then []
                          else [(''Authorization'', ''Bearer '' @ base64_EncodeToString token)])\<rparr>"
  shows "snd (get w server token0 path clusterToken log) =
           (if len cacert = 0 then log1 @ [Do DefaultClient req]
            else log1 @ [Do (pinnedClient cacert) req, CloseIdleConnections (pinnedClient cacert)])
         \<and> pinnedClient cacert =
             \<lparr>Timeout = 5 * Second,
              Transport = Some \<lparr>Proxy = ProxyFromEnvironment,
                TLSClientConfig =
                  \<lparr>InsecureSkipVerify = False, RootCAs = Some [contents cacert]\<rparr>\<rparr>\<rparr>
         \<and> DefaultClient = \<lparr>Timeout = 0, Transport = None\<rparr>"
proof (intro conjI)
  show "snd (get w server token0 path clusterToken log) =
           (if len cacert = 0 then log1 @ [Do DefaultClient req]
            else log1 @ [Do (pinnedClient cacert) req, CloseIdleConnections (pinnedClient cacert)])"
    by (simp add: get_manual [OF assms refl])
  show "pinnedClient cacert =
             \<lparr>Timeout = 5 * Second,
              Transport = Some \<lparr>Proxy = ProxyFromEnvironment,
                TLSClientConfig =
                  \<lparr>InsecureSkipVerify = False, RootCAs = Some [contents cacert]\<rparr>\<rparr>\<rparr>"
    by (simp add: pinnedClient_def NewCertPool_def AppendCertsFromPEM_def)
  show "DefaultClient = \<lparr>Timeout = 0, Transport = None\<rparr>"
    by (simp add: DefaultClient_def)
qed

theorem get_client_witness:
  "CACerts privateCA exampleServer ''tok'' True [] =
     ((Bytes ''CA'', ''7368613a4341'', None),
      snd (CACerts_exchange privateCA exampleServer ''tok'' True []))
   \<and> snd (get privateCA exampleServer ''tok'' ''/v3/plan'' True []) =
       snd (CACerts_exchange privateCA exampleServer ''tok'' True [])
       @ [Do (pinnedClient (Bytes ''CA''))
            \<lparr>Method = ''GET'', URL = ''https://rancher.test/v3/plan'', Header = []\<rparr>,
          CloseIdleConnections (pinnedClient (Bytes ''CA''))]
   \<and> Timeout (pinnedClient (Bytes ''CA'')) = 5000000000
   \<and> Transport (pinnedClient (Bytes ''CA'')) =
       Some \<lparr>Proxy = ProxyFromEnvironment,
             TLSClientConfig = \<lparr>InsecureSkipVerify = False, RootCAs = Some [''CA'']\<rparr>\<rparr>"
proof -
  let ?u = "\<lparr>Scheme = ''https'', Host = ''rancher.test'', Path = [], RawQuery = []\<rparr>"
  have h1: "Parse privateCA exampleServer = Inr ?u"
    by (simp add: privateCA_def privateWorld_Parse exampleServer_def)
  have h2: "(if \<not> True then ResolveToken privateCA ''tok'' else (False, ''tok'', None)) =
              (False, ''tok'', None)"
    by simp
  have h3: "URL_String privateCA (?u\<lparr>Path := ''/v3/plan''\<rparr>) = ''https://rancher.test/v3/plan''"
    unfolding privateCA_def privateWorld_URL_String by simp
  have h4: "Parse privateCA (URL_String privateCA (?u\<lparr>Path := ''/v3/plan''\<rparr>)) = Inr ?u"
    unfolding h3 by (simp add: privateCA_def privateWorld_Parse)
  from get_client [OF h1 h2 privateCA_CACerts h4 refl] h3 privateCA_CACerts [of True]
  show ?thesis by (simp add: Second_def)
qed

text \<open>
  C7 as it is stated fails when the bundle is empty. The server of the public CA answers
  the probe, so the bundle is empty; \<open>get\<close> then sends the resource request through the
  default client, whose timeout is zero (none) and not five seconds, and the log of the
  call ends with that request: no idle connection is released.
\<close>

theorem get_client_counterexample:
  "get publicCA exampleServer ''tok'' ''/v3/plan'' True [] =
     ((Bytes ''ok'', [], None),
      [Do DefaultClient
         \<lparr>Method = ''GET'', URL = ''https://rancher.test/cacerts'', Header = []\<rparr>,
       Do DefaultClient
         \<lparr>Method = ''GET'', URL = ''https://rancher.test/v3/plan'', Header = []\<rparr>])
   \<and> Timeout DefaultClient = 0
   \<and> Timeout DefaultClient \<noteq> 5 * Second"
proof -
  let ?u = "\<lparr>Scheme = ''https'', Host = ''rancher.test'', Path = [], RawQuery = []\<rparr>"
  have h1: "Parse publicCA exampleServer = Inr ?u"
    by (simp add: publicCA_def privateWorld_def exampleServer_def)
  have h2: "(if \<not> True then ResolveToken publicCA ''tok'' else (False, ''tok'', None)) =
              (False, ''tok'', None)"
    by simp
  have h3: "URL_String publicCA (?u\<lparr>Path := ''/v3/plan''\<rparr>) = ''https://rancher.test/v3/plan''"
    by (simp add: publicCA_def privateWorld_def)
  have h4: "Parse publicCA (URL_String publicCA (?u\<lparr>Path := ''/v3/plan''\<rparr>)) = Inr ?u"
    unfolding h3 by (simp add: publicCA_def privateWorld_def)
  have h5: "RoundTrip publicCA n c r =
              Inr \<lparr>StatusCode = 200, Status = ''200 OK'', RespHeader = [], RespBody = ''ok'',
                   ReadErr = None\<rparr>" for n c r
    by (simp add: publicCA_def privateWorld_def)
  have "get publicCA exampleServer ''tok'' ''/v3/plan'' True [] =
     ((Bytes ''ok'', [], None),
      [Do DefaultClient
         \<lparr>Method = ''GET'', URL = ''https://rancher.test/cacerts'', Header = []\<rparr>,
       Do DefaultClient
         \<lparr>Method = ''GET'', URL = ''https://rancher.test/v3/plan'', Header = []\<rparr>])"
    by (simp add: get_manual [OF h1 h2 publicCA_CACerts h4 refl refl] h3 [simplified] h5
          readResponse_def
          ReadAll_def StatusOK_def)
  then show ?thesis by (simp add: DefaultClient_def Second_def)
qed

text \<open>
  C8. When \<open>get\<close> has a bundle from \<open>CACerts\<close> and the token is not hardware-backed, the
  resource request of a call without cluster token carries \<open>Authorization\<close> with \<open>Bearer\<close>
  and the base64 form of the token itself, as the resolver gave it back, and not of
  its digest. When the request comes back with status 200, \<open>get\<close> returns the body that
  was read with the checksum of \<open>CACerts\<close> (and the error of the read, if any); with
  another status it returns an error whose message is the body and the status text.
\<close>

theorem get_resource:
  assumes "Parse w server = Inr u"
    and "(if \<not> clusterToken then ResolveToken w token0 else (False, token0, None)) =
           (False, token, None)"
    and "CACerts w server token clusterToken log = ((cacert, caChecksum, None), log1)"
    and "Parse w (URL_String w (u\<lparr>Path := path\<rparr>)) = Inr u'"
    and "req = \<lparr>Method = ''GET'', URL = URL_String w (u\<lparr>Path := path\<rparr>),
                Header = (if clusterToken then []
                          else [(''Authorization'', ''Bearer '' @ base64_EncodeToString token)])\<rparr>"
    and "c = (if len cacert = 0 then DefaultClient else pinnedClient cacert)"
    and "RoundTrip w (length log1) c req = Inr resp"
  shows "fst (get w server token0 path clusterToken log) =
           (if StatusCode resp = StatusOK
            then (Bytes (RespBody resp), caChecksum, ReadErr resp)
            else (NilBytes, [], Some (Error (RespBody resp @ '': '' @ Status resp))))
         \<and> Do c req \<in> set (snd (get w server token0 path clusterToken log))"
  by (simp add: get_manual [OF assms(1-6)] assms(7) readResponse_def ReadAll_def)

theorem get_resource_witness:
  "ResolveToken privateCA ''tok'' = (False, ''tok'', None)
   \<and> CACerts privateCA exampleServer ''tok'' False [] =
       ((Bytes ''CA'', ''7368613a4341'', None),
        snd (CACerts_exchange privateCA exampleServer ''tok'' False []))
   \<and> fst (get privateCA exampleServer ''tok'' ''/v3/plan'' False []) =
       (Bytes ''plan'', ''7368613a4341'', None)
   \<and> Do (pinnedClient (Bytes ''CA''))
        \<lparr>Method = ''GET'', URL = ''https://rancher.test/v3/plan'',
         Header = [(''Authorization'', ''Bearer dG9r'')]\<rparr>
       \<in> set (snd (get privateCA exampleServer ''tok'' ''/v3/plan'' False []))"
proof -
  let ?u = "\<lparr>Scheme = ''https'', Host = ''rancher.test'', Path = [], RawQuery = []\<rparr>"
  let ?req = "\<lparr>Method = ''GET'', URL = URL_String privateCA (?u\<lparr>Path := ''/v3/plan''\<rparr>),
               Header = (if False then []
                 else [(''Authorization'', ''Bearer '' @ base64_EncodeToString ''tok'')])\<rparr>"
  let ?c = "if len (Bytes ''CA'') = 0 then DefaultClient else pinnedClient (Bytes ''CA'')"
  let ?log1 = "snd (CACerts_exchange privateCA exampleServer ''tok'' False [])"
  have h1: "Parse privateCA exampleServer = Inr ?u"
    by (simp add: privateCA_def privateWorld_Parse exampleServer_def)
  have r: "ResolveToken privateCA ''tok'' = (False, ''tok'', None)"
    by (simp add: privateCA_def privateWorld_def)
  then have h2: "(if \<not> False then ResolveToken privateCA ''tok'' else (False, ''tok'', None)) =
              (False, ''tok'', None)"
    by simp
  have h3: "URL_String privateCA (?u\<lparr>Path := ''/v3/plan''\<rparr>) = ''https://rancher.test/v3/plan''"
    unfolding privateCA_def privateWorld_URL_String by simp
  have h4: "Parse privateCA (URL_String privateCA (?u\<lparr>Path := ''/v3/plan''\<rparr>)) = Inr ?u"
    unfolding h3 by (simp add: privateCA_def privateWorld_Parse)
  have c: "?c = pinnedClient (Bytes ''CA'')"
    by simp
  have h7: "RoundTrip privateCA (length ?log1) ?c ?req =
              Inr \<lparr>StatusCode = 200, Status = ''200 OK'', RespHeader = [], RespBody = ''plan'',
                   ReadErr = None\<rparr>"
    unfolding c privateCA_def by (rule privateWorld_pinned)
  have b: "base64_EncodeToString ''tok'' = ''dG9r''"
    by (simp add: base64_EncodeToString_def encodeStd_def)
  from get_resource [OF h1 h2 privateCA_CACerts h4 refl refl h7] r h3 b c
    privateCA_CACerts [of False]
  show ?thesis by (simp add: StatusOK_def)
qed




text \<open>
  C10. When the call of \<open>CACerts\<close> with a cluster token returns no error and an empty
  bundle, \<open>ToFile\<close> returns no error and a file with empty content, the path
  \<open>/etc/pki/trust/anchors/additional-ca.pem\<close> and the permissions \<open>0644\<close>: the same shape
  as for a bundle that is not empty.
\<close>

theorem ToFile_empty_bundle:
  assumes "CACerts w server token True log = ((cacert, caChecksum, None), log')"
    and "len cacert = 0"
  shows "ToFile w server token log =
           (Inr \<lparr>Content = [], FilePath = ''/etc/pki/trust/anchors/additional-ca.pem'',
                 Permissions = ''0644''\<rparr>, log')"
proof -
  from assms(2) have "contents cacert = []" by (cases cacert) simp_all
  with assms(1) show ?thesis by (simp add: ToFile_def base64_empty)
qed

theorem ToFile_empty_bundle_witness:
  "CACerts publicCA exampleServer ''tok'' True [] =
     ((NilBytes, [], None),
      [Do DefaultClient
         \<lparr>Method = ''GET'', URL = ''https://rancher.test/cacerts'', Header = []\<rparr>])
   \<and> len NilBytes = 0
   \<and> ToFile publicCA exampleServer ''tok'' [] =
       (Inr \<lparr>Content = [], FilePath = ''/etc/pki/trust/anchors/additional-ca.pem'',
             Permissions = ''0644''\<rparr>,
        [Do DefaultClient
           \<lparr>Method = ''GET'', URL = ''https://rancher.test/cacerts'', Header = []\<rparr>])"
proof -
  have h: "len NilBytes = 0" by simp
  from ToFile_empty_bundle [OF publicCA_CACerts h] publicCA_CACerts [of "''tok''"] h
  show ?thesis by blast
qed

end
